theory Spec2Isabelle
  imports Main
begin

section \<open>Directory apostrophe standardization: a model of \<open>02_01_replace_directory_apostrophes.py\<close>\<close>

text \<open>
  The script walks a directory tree, collects the directories below every year-prefixed
  directory, and calls \<open>DirectoryRenamer.rename_directory\<close> on each of them, deepest first,
  then on the year-prefixed directories themselves. This theory embeds the class
  \<open>DirectoryRenamer\<close> with explicit state passing: the object's fields and the directory
  tree it works on are one record, every method takes the record and returns it updated.
  Console output, the log file and the summary file are not modelled.
\<close>

subsection \<open>Strings and paths\<close>

text \<open>
  A Python \<open>str\<close> is a sequence of Unicode code points, so a name is a list of code points
  (natural numbers). A \<open>pathlib.Path\<close> is the tuple of its \<open>parts\<close>: \<open>Path(root) / dir_name\<close>
  appends one part, \<open>.name\<close> is the last part (the empty string for a path without parts),
  \<open>.parent\<close> drops it. \<open>str\<close> is injective on such paths, so the dictionary that the source
  keys by \<open>str(dir_path)\<close> is keyed by the path itself.
\<close>

type_synonym ustr = "nat list"
type_synonym path = "ustr list"

definition name :: "path \<Rightarrow> ustr" where
  "name p = (if p = [] then [] else last p)"

definition parent :: "path \<Rightarrow> path" where
  "parent p = butlast p"

subsection \<open>Constants\<close>

text \<open>
  Lines 35 and 36 of the source. Both literals are the one-character string made of the
  code point U+0027: the literal of \<open>TYPOGRAPHIC_APOSTROPHE\<close> is the byte \<open>0x27\<close> in the
  file, although the comment beside it, and the docstring of the module, name U+2019.
  A one-character string is modelled by its code point.
\<close>

definition STRAIGHT_APOSTROPHE :: nat where
  "STRAIGHT_APOSTROPHE = 0x27"

definition TYPOGRAPHIC_APOSTROPHE :: nat where
  "TYPOGRAPHIC_APOSTROPHE = 0x27"

text \<open>
  The code point that the comment on line 36 and the module docstring give for the
  typographic apostrophe. The program never uses it; the statements below need it to say
  what a typographic apostrophe is.
\<close>

definition U2019 :: nat where
  "U2019 = 0x2019"

text \<open>
  \<open>YEAR_PATTERN = re.compile(r'^\d{4}')\<close> with \<open>YEAR_PATTERN.match(dir_name)\<close>: the first four
  characters exist and are decimal digits. Which code points \<open>\d\<close> accepts is the Unicode
  table of the Python runtime (category Nd), so the digit test \<open>isdecimal\<close> is a parameter;
  \<open>ascii_digit\<close> is its restriction to U+0030 .. U+0039, which every such table contains.
\<close>

definition YEAR_PATTERN_match :: "(nat \<Rightarrow> bool) \<Rightarrow> ustr \<Rightarrow> bool" where
  "YEAR_PATTERN_match isdecimal dir_name =
     (4 \<le> length dir_name \<and> list_all isdecimal (take 4 dir_name))"

definition ascii_digit :: "nat \<Rightarrow> bool" where
  "ascii_digit c = (48 \<le> c \<and> c \<le> 57)"

subsection \<open>The classifier and the transformation\<close>

text \<open>\<open>str.replace(old, new)\<close> for a one-character \<open>old\<close> and \<open>new\<close>.\<close>

definition str_replace :: "nat \<Rightarrow> nat \<Rightarrow> ustr \<Rightarrow> ustr" where
  "str_replace old new s = map (\<lambda>c. if c = old then new else c) s"

definition has_straight_apostrophe :: "ustr \<Rightarrow> bool" where
  "has_straight_apostrophe dir_name = (STRAIGHT_APOSTROPHE \<in> set dir_name)"

definition has_typographic_apostrophe :: "ustr \<Rightarrow> bool" where
  "has_typographic_apostrophe dir_name = (TYPOGRAPHIC_APOSTROPHE \<in> set dir_name)"

definition needs_standardization :: "ustr \<Rightarrow> bool" where
  "needs_standardization dir_name =
     (has_straight_apostrophe dir_name \<and> \<not> has_typographic_apostrophe dir_name)"

definition standardize_apostrophes :: "ustr \<Rightarrow> ustr" where
  "standardize_apostrophes dir_name =
     str_replace STRAIGHT_APOSTROPHE TYPOGRAPHIC_APOSTROPHE dir_name"

subsection \<open>The directory tree and the operating system calls\<close>

text \<open>
  What \<open>os.stat\<close> reports and the script reads. The permission bits are \<open>st_mode\<close>; the
  file type, which \<open>st_mode\<close> carries too and \<open>os.chmod\<close> cannot change, is kept apart in
  \<open>kind\<close>. Time stamps are opaque numbers.
\<close>

record stat_result =
  st_mode :: nat
  st_uid :: nat
  st_gid :: nat
  st_atime :: int
  st_mtime :: int
  st_ctime :: int

datatype kind = Directory | RegularFile

text \<open>
  The tree is the list of its entries, each under its full path, in the order in which
  the operating system lists them; a path occurs at most once. Symbolic links are not
  modelled.
\<close>

type_synonym filesystem = "(path \<times> kind \<times> stat_result) list"

datatype os_error = FileNotFoundError | FileExistsError | PermissionError

definition path_exists :: "filesystem \<Rightarrow> path \<Rightarrow> bool" where
  "path_exists tree p = (map_of tree p \<noteq> None)"

definition is_dir :: "filesystem \<Rightarrow> path \<Rightarrow> bool" where
  "is_dir tree p = (case map_of tree p of Some (Directory, _) \<Rightarrow> True | _ \<Rightarrow> False)"

definition os_stat :: "filesystem \<Rightarrow> path \<Rightarrow> os_error + stat_result" where
  "os_stat tree p = (case map_of tree p of None \<Rightarrow> Inl FileNotFoundError | Some (_, st) \<Rightarrow> Inr st)"

definition update_stat :: "path \<Rightarrow> (stat_result \<Rightarrow> stat_result) \<Rightarrow> filesystem \<Rightarrow> filesystem" where
  "update_stat p f tree = map (\<lambda>(q, k, st). if q = p then (q, k, f st) else (q, k, st)) tree"

definition os_chmod :: "filesystem \<Rightarrow> path \<Rightarrow> nat \<Rightarrow> os_error + filesystem" where
  "os_chmod tree p m =
     (if path_exists tree p then Inr (update_stat p (\<lambda>st. st\<lparr>st_mode := m\<rparr>) tree)
      else Inl FileNotFoundError)"

definition os_chown :: "filesystem \<Rightarrow> path \<Rightarrow> nat \<Rightarrow> nat \<Rightarrow> os_error + filesystem" where
  "os_chown tree p u g =
     (if path_exists tree p then Inr (update_stat p (\<lambda>st. st\<lparr>st_uid := u, st_gid := g\<rparr>) tree)
      else Inl FileNotFoundError)"

definition os_utime :: "filesystem \<Rightarrow> path \<Rightarrow> int \<Rightarrow> int \<Rightarrow> os_error + filesystem" where
  "os_utime tree p a m =
     (if path_exists tree p then Inr (update_stat p (\<lambda>st. st\<lparr>st_atime := a, st_mtime := m\<rparr>) tree)
      else Inl FileNotFoundError)"

text \<open>
  \<open>Path.rename\<close>: the entry and everything below it move to the new path and keep what
  \<open>os.stat\<close> reports of them. It fails when the source is missing, when the target is
  taken, and when the directory that holds the source is in the tree without the owner's
  write permission (bit \<open>0o200\<close>).
\<close>

definition owner_writable :: "stat_result \<Rightarrow> bool" where
  "owner_writable st = ((st_mode st div 128) mod 2 = 1)"

definition move_path :: "path \<Rightarrow> path \<Rightarrow> path \<Rightarrow> path" where
  "move_path src dst p =
     (if take (length src) p = src then dst @ drop (length src) p else p)"

definition os_rename :: "filesystem \<Rightarrow> path \<Rightarrow> path \<Rightarrow> os_error + filesystem" where
  "os_rename tree src dst =
     (if \<not> path_exists tree src then Inl FileNotFoundError
      else if path_exists tree dst then Inl FileExistsError
      else case map_of tree (parent src) of
             Some (_, st) \<Rightarrow>
               if owner_writable st then Inr (map (\<lambda>(p, e). (move_path src dst p, e)) tree)
               else Inl PermissionError
           | None \<Rightarrow> Inr (map (\<lambda>(p, e). (move_path src dst p, e)) tree))"

text \<open>
  \<open>os.walk(top)\<close>, top down, without the file lists: for \<open>top\<close> and then for every directory
  below it, the pair of the directory and the names of its subdirectories. A \<open>top\<close> that
  is not a directory yields nothing, as the default \<open>onerror=None\<close> has it.
\<close>

definition listdir_dirs :: "filesystem \<Rightarrow> path \<Rightarrow> ustr list" where
  "listdir_dirs tree topdir =
     map (\<lambda>(p, e). last p) (filter (\<lambda>(p, k, st). p \<noteq> [] \<and> butlast p = topdir \<and> k = Directory) tree)"

definition max_depth :: "filesystem \<Rightarrow> nat" where
  "max_depth tree = foldr (\<lambda>(p, e). max (length p)) tree 0"

function os_walk :: "filesystem \<Rightarrow> path \<Rightarrow> (path \<times> ustr list) list" where
  "os_walk tree topdir =
     (if is_dir tree topdir
      then (topdir, listdir_dirs tree topdir)
             # concat (map (\<lambda>d. os_walk tree (topdir @ [d])) (listdir_dirs tree topdir))
      else [])"
  by pat_completeness auto
termination
proof (relation "measure (\<lambda>(tree, topdir). max_depth tree - length topdir)")
  show "wf (measure (\<lambda>(tree, topdir). max_depth tree - length topdir))" by simp
next
  fix tree :: filesystem and topdir :: path and d :: ustr
  assume listed: "d \<in> set (listdir_dirs tree topdir)"
  have bound: "length p \<le> max_depth t" if "(p, e) \<in> set t" for p e and t :: filesystem
    using that by (induction t) (auto simp: max_depth_def)
  have "\<exists>p e. (p, e) \<in> set t \<and> p \<noteq> [] \<and> butlast p = topdir"
    if "d \<in> set (listdir_dirs t topdir)" for t :: filesystem
    using that unfolding listdir_dirs_def by (induction t) (auto split: if_splits)
  from this [OF listed] obtain p e
    where entry: "(p, e) \<in> set tree" "p \<noteq> []" "butlast p = topdir"
    by blast
  from entry(2,3) have "length p = Suc (length topdir)"
    by (cases p rule: rev_cases) auto
  with bound [OF entry(1)] have "length topdir < max_depth tree" by simp
  then show "((tree, topdir @ [d]), (tree, topdir))
               \<in> measure (\<lambda>(tree, topdir). max_depth tree - length topdir)"
    by simp
qed

declare os_walk.simps [simp del]

subsection \<open>The object\<close>

text \<open>
  The fields of \<open>DirectoryRenamer\<close> that the methods read and write, and the directory
  tree \<open>fs\<close>. The three ledgers are \<open>renamed_dirs\<close>, \<open>skipped_dirs\<close> and \<open>error_dirs\<close>; the
  text stored with an error is one of the two literals of the source or the text of the
  exception that the rename raised.
\<close>

datatype reason =
    Destination_already_exists
  | Failed_to_save_metadata
  | Exception_text os_error

record renamer =
  base_dir :: path
  dry_run :: bool
  renamed_dirs :: "(path \<times> path) list"
  skipped_dirs :: "path list"
  error_dirs :: "(path \<times> reason) list"
  metadata_cache :: "path \<rightharpoonup> stat_result"
  fs :: filesystem

definition init :: "path \<Rightarrow> bool \<Rightarrow> filesystem \<Rightarrow> renamer" where
  "init base dry tree =
     \<lparr>base_dir = base, dry_run = dry, renamed_dirs = [], skipped_dirs = [],
      error_dirs = [], metadata_cache = Map.empty, fs = tree\<rparr>"

definition find_year_prefixed_dirs :: "(nat \<Rightarrow> bool) \<Rightarrow> renamer \<Rightarrow> path list" where
  "find_year_prefixed_dirs isdecimal s =
     concat (map (\<lambda>(root, dirs).
                    map (\<lambda>dir_name. root @ [dir_name])
                        (filter (YEAR_PATTERN_match isdecimal) dirs))
                 (os_walk (fs s) (base_dir s)))"

definition save_metadata :: "path \<Rightarrow> renamer \<Rightarrow> bool \<times> renamer" where
  "save_metadata dir_path s =
     (case os_stat (fs s) dir_path of
        Inr stat_info \<Rightarrow> (True, s\<lparr>metadata_cache := (metadata_cache s)(dir_path \<mapsto> stat_info)\<rparr>)
      | Inl e \<Rightarrow> (False, s))"

text \<open>
  \<open>restore_metadata\<close> runs \<open>os.chmod\<close>, \<open>os.chown\<close> and \<open>os.utime\<close> in this order inside
  one \<open>try\<close>; what the calls before a failing one have done stays done.
\<close>

definition restore_metadata :: "path \<Rightarrow> renamer \<Rightarrow> bool \<times> renamer" where
  "restore_metadata dir_path s =
     (case metadata_cache s dir_path of
        None \<Rightarrow> (False, s)
      | Some metadata \<Rightarrow>
          (case os_chmod (fs s) dir_path (st_mode metadata) of
             Inl e \<Rightarrow> (False, s)
           | Inr fs1 \<Rightarrow>
               (case os_chown fs1 dir_path (st_uid metadata) (st_gid metadata) of
                  Inl e \<Rightarrow> (False, s\<lparr>fs := fs1\<rparr>)
                | Inr fs2 \<Rightarrow>
                    (case os_utime fs2 dir_path (st_atime metadata) (st_mtime metadata) of
                       Inl e \<Rightarrow> (False, s\<lparr>fs := fs2\<rparr>)
                     | Inr fs3 \<Rightarrow> (True, s\<lparr>fs := fs3\<rparr>)))))"

definition rename_directory :: "path \<Rightarrow> renamer \<Rightarrow> bool \<times> renamer" where
  "rename_directory dir_path s =
     (let dir_name = name dir_path;
          parent_dir = parent dir_path
      in if \<not> needs_standardization dir_name
         then (True, s\<lparr>skipped_dirs := skipped_dirs s @ [dir_path]\<rparr>)
         else
           let new_name = standardize_apostrophes dir_name;
               new_path = parent_dir @ [new_name]
           in if path_exists (fs s) new_path
              then (False, s\<lparr>error_dirs := error_dirs s @ [(dir_path, Destination_already_exists)]\<rparr>)
              else
                (case save_metadata dir_path s of
                   (False, s1) \<Rightarrow>
                     (False, s1\<lparr>error_dirs := error_dirs s1 @ [(dir_path, Failed_to_save_metadata)]\<rparr>)
                 | (True, s1) \<Rightarrow>
                     if dry_run s1
                     then (True, s1\<lparr>renamed_dirs := renamed_dirs s1 @ [(dir_path, new_path)]\<rparr>)
                     else
                       (case os_rename (fs s1) dir_path new_path of
                          Inl e \<Rightarrow>
                            (False, s1\<lparr>error_dirs := error_dirs s1 @ [(dir_path, Exception_text e)]\<rparr>)
                        | Inr fs1 \<Rightarrow>
                            let s2 = snd (restore_metadata new_path (s1\<lparr>fs := fs1\<rparr>))
                            in (True, s2\<lparr>renamed_dirs := renamed_dirs s2 @ [(dir_path, new_path)]\<rparr>))))"

text \<open>
  \<open>process_directories\<close>. Both lists are built before the first rename. The list of all
  subdirectories holds, for every year-prefixed directory in turn, what \<open>os.walk\<close> lists
  below it. \<open>list.sort(key=..., reverse=True)\<close> is stable, so it is the stable sort on
  the negated key. The two loops discard what \<open>rename_directory\<close> returns.
\<close>

definition collect_all_dirs :: "filesystem \<Rightarrow> path list \<Rightarrow> path list" where
  "collect_all_dirs tree year_dirs =
     concat (map (\<lambda>year_dir.
                    concat (map (\<lambda>(root, dirs). map (\<lambda>dir_name. root @ [dir_name]) dirs)
                                (os_walk tree year_dir)))
                 year_dirs)"

definition sort_deepest_first :: "path list \<Rightarrow> path list" where
  "sort_deepest_first all_dirs = sort_key (\<lambda>p. - int (length p)) all_dirs"

definition rename_each :: "path list \<Rightarrow> renamer \<Rightarrow> renamer" where
  "rename_each dirs s = fold (\<lambda>dir_path st. snd (rename_directory dir_path st)) dirs s"

definition process_directories :: "(nat \<Rightarrow> bool) \<Rightarrow> renamer \<Rightarrow> renamer" where
  "process_directories isdecimal s =
     (let year_dirs = find_year_prefixed_dirs isdecimal s;
          all_dirs = sort_deepest_first (collect_all_dirs (fs s) year_dirs)
      in rename_each year_dirs (rename_each all_dirs s))"

definition total_processed :: "renamer \<Rightarrow> nat" where
  "total_processed s = length (renamed_dirs s) + length (skipped_dirs s) + length (error_dirs s)"

definition validate_changes :: "renamer \<Rightarrow> bool" where
  "validate_changes s =
     (if list_ex (\<lambda>(old_path, new_path). \<not> path_exists (fs s) new_path) (renamed_dirs s)
      then False
      else if total_processed s = 0 then False
      else True)"

definition run :: "(nat \<Rightarrow> bool) \<Rightarrow> renamer \<Rightarrow> bool \<times> renamer" where
  "run isdecimal s = (let s1 = process_directories isdecimal s in (validate_changes s1, s1))"

subsection \<open>Derived notions used in the statements\<close>

text \<open>
  The sequence of the paths on which \<open>process_directories\<close> calls \<open>rename_directory\<close>:
  the sorted list of subdirectories, then the year-prefixed directories as they were
  found.
\<close>

definition processing_order :: "(nat \<Rightarrow> bool) \<Rightarrow> renamer \<Rightarrow> path list" where
  "processing_order isdecimal s =
     (let year_dirs = find_year_prefixed_dirs isdecimal s
      in sort_deepest_first (collect_all_dirs (fs s) year_dirs) @ year_dirs)"

text \<open>
  One call on \<open>p\<close> has taken the ledgers of \<open>s\<close> to those of \<open>s'\<close> by appending one
  entry for \<open>p\<close> to one of them and leaving the other two as they were.
\<close>

definition one_entry_appended :: "path \<Rightarrow> renamer \<Rightarrow> renamer \<Rightarrow> bool" where
  "one_entry_appended p s s' =
     ((\<exists>new_path. renamed_dirs s' = renamed_dirs s @ [(p, new_path)] \<and>
                  skipped_dirs s' = skipped_dirs s \<and> error_dirs s' = error_dirs s) \<or>
      (renamed_dirs s' = renamed_dirs s \<and>
         skipped_dirs s' = skipped_dirs s @ [p] \<and> error_dirs s' = error_dirs s) \<or>
      (\<exists>r. renamed_dirs s' = renamed_dirs s \<and>
           skipped_dirs s' = skipped_dirs s \<and> error_dirs s' = error_dirs s @ [(p, r)]))"

subsection \<open>Example trees\<close>

text \<open>
  Names are written as code points: \<open>[98]\<close> is \<open>b\<close>, \<open>[50,48,50,48]\<close> is \<open>2020\<close>,
  \<open>[50,48,50,49]\<close> is \<open>2021\<close>, \<open>[50,48,50,51]\<close> is \<open>2023\<close>; \<open>[65,39,115]\<close> is \<open>A's\<close> with
  the straight apostrophe U+0027 and \<open>[65,8217,115]\<close> is the same name with U+2019
  (8217) in its place. The permission bits 493 are \<open>0o755\<close>. Every name below either
  starts with four ASCII digits or is shorter than four characters, so \<open>ascii_digit\<close>
  decides the year pattern on them as any table of decimal digits does.
\<close>

definition attrs_0755 :: stat_result where
  "attrs_0755 =
     \<lparr>st_mode = 493, st_uid = 1000, st_gid = 1000, st_atime = 1, st_mtime = 2, st_ctime = 3\<rparr>"

text \<open>\<open>b/2020/2021\<close>: a year-prefixed directory inside a year-prefixed directory.\<close>

definition tree_nested :: filesystem where
  "tree_nested =
     [([[98]], Directory, attrs_0755),
      ([[98], [50,48,50,48]], Directory, attrs_0755),
      ([[98], [50,48,50,48], [50,48,50,49]], Directory, attrs_0755)]"

text \<open>\<open>b/2023/A's\<close>, and the path that the same directory would have with U+2019.\<close>

definition old_apos :: path where
  "old_apos = [[98], [50,48,50,51], [65,39,115]]"

definition new_apos :: path where
  "new_apos = [[98], [50,48,50,51], [65,8217,115]]"

definition tree_apos :: filesystem where
  "tree_apos =
     [([[98]], Directory, attrs_0755),
      ([[98], [50,48,50,51]], Directory, attrs_0755),
      (old_apos, Directory, attrs_0755)]"

definition tree_renamed :: filesystem where
  "tree_renamed =
     [([[98]], Directory, attrs_0755),
      ([[98], [50,48,50,51]], Directory, attrs_0755),
      (new_apos, Directory, attrs_0755)]"

text \<open>Both directories side by side: the target name is taken.\<close>

definition tree_collision :: filesystem where
  "tree_collision = tree_apos @ [(new_apos, Directory, attrs_0755)]"

text \<open>The base directory alone: nothing in it is year-prefixed.\<close>

definition tree_bare :: filesystem where
  "tree_bare = [([[98]], Directory, attrs_0755)]"

section \<open>Properties\<close>

subsection \<open>The transformation\<close>

lemma str_replace_twice: "str_replace a b (str_replace a b s) = str_replace a b s"
  by (induction s) (auto simp: str_replace_def)

lemma str_replace_removes: "a \<noteq> b \<Longrightarrow> a \<notin> set (str_replace a b s)"
  by (induction s) (auto simp: str_replace_def)

text \<open>
  With the two constants as the source has them, no name has the one mark and lacks the
  other, so the classifier accepts no name.
\<close>

lemma needs_standardization_False: "\<not> needs_standardization dir_name"
  by (simp add: needs_standardization_def has_straight_apostrophe_def
      has_typographic_apostrophe_def STRAIGHT_APOSTROPHE_def TYPOGRAPHIC_APOSTROPHE_def)

text \<open>
  Claim C3: for every directory name with at least one straight apostrophe and no
  typographic apostrophe, the transformation output has no straight apostrophe, has at
  least one typographic apostrophe, and keeps all other characters in their order.
  The source does not do this: the name \<open>A's\<close> has the straight mark and not U+2019, and
  \<open>standardize_apostrophes\<close> returns it as it is, with the straight mark and without
  U+2019.
\<close>

theorem C3_standardize_apostrophes_unchanged:
  "STRAIGHT_APOSTROPHE \<in> set [65, 39, 115] \<and> U2019 \<notin> set [65, 39, 115] \<and>
   standardize_apostrophes [65, 39, 115] = [65, 39, 115] \<and>
   STRAIGHT_APOSTROPHE \<in> set (standardize_apostrophes [65, 39, 115]) \<and>
   U2019 \<notin> set (standardize_apostrophes [65, 39, 115])"
  by (simp add: standardize_apostrophes_def str_replace_def STRAIGHT_APOSTROPHE_def
      TYPOGRAPHIC_APOSTROPHE_def U2019_def)

text \<open>
  Claim C4: the classifier reports that a name needs standardization if and only if the
  name has at least one straight apostrophe and no typographic apostrophe.
  The source does not do this: \<open>A's\<close> has the straight mark and not U+2019, and
  \<open>needs_standardization\<close> rejects it.
\<close>

theorem C4_needs_standardization_rejects:
  "STRAIGHT_APOSTROPHE \<in> set [65, 39, 115] \<and> U2019 \<notin> set [65, 39, 115] \<and>
   \<not> needs_standardization [65, 39, 115]"
  by (simp add: needs_standardization_def has_straight_apostrophe_def
      has_typographic_apostrophe_def STRAIGHT_APOSTROPHE_def TYPOGRAPHIC_APOSTROPHE_def U2019_def)

text \<open>
  Claim C8: for every directory name that needed standardization, the classifier reports
  of the transformed name that it does not need standardization, and transforming a
  second time changes nothing. Both hold of every name. The proof does not look at the
  values of the two constants.
\<close>

theorem C8_classifier_after_transformation:
  "\<not> needs_standardization (standardize_apostrophes dir_name) \<and>
   standardize_apostrophes (standardize_apostrophes dir_name) = standardize_apostrophes dir_name"
proof
  show "\<not> needs_standardization (standardize_apostrophes dir_name)"
  proof (cases "STRAIGHT_APOSTROPHE = TYPOGRAPHIC_APOSTROPHE")
    case True
    then show ?thesis
      by (simp add: needs_standardization_def has_straight_apostrophe_def
          has_typographic_apostrophe_def)
  next
    case False
    then show ?thesis
      by (simp add: needs_standardization_def has_straight_apostrophe_def
          standardize_apostrophes_def str_replace_removes)
  qed
  show "standardize_apostrophes (standardize_apostrophes dir_name)
          = standardize_apostrophes dir_name"
    by (simp add: standardize_apostrophes_def str_replace_twice)
qed

theorem C8_classifier_after_transformation_witness:
  "has_straight_apostrophe [65, 39, 115] \<and>
   \<not> needs_standardization (standardize_apostrophes [65, 39, 115]) \<and>
   standardize_apostrophes (standardize_apostrophes [65, 39, 115])
     = standardize_apostrophes [65, 39, 115]"
  using C8_classifier_after_transformation [of "[65, 39, 115]"]
  by (simp add: has_straight_apostrophe_def STRAIGHT_APOSTROPHE_def)

subsection \<open>One call of \<open>rename_directory\<close>\<close>

lemma rename_directory_skips:
  "rename_directory dir_path s = (True, s\<lparr>skipped_dirs := skipped_dirs s @ [dir_path]\<rparr>)"
  by (simp add: rename_directory_def needs_standardization_False)

lemma save_metadata_ledgers:
  "renamed_dirs (snd (save_metadata p s)) = renamed_dirs s \<and>
   skipped_dirs (snd (save_metadata p s)) = skipped_dirs s \<and>
   error_dirs (snd (save_metadata p s)) = error_dirs s"
  by (simp add: save_metadata_def split: sum.splits)

lemma restore_metadata_ledgers:
  "renamed_dirs (snd (restore_metadata p s)) = renamed_dirs s \<and>
   skipped_dirs (snd (restore_metadata p s)) = skipped_dirs s \<and>
   error_dirs (snd (restore_metadata p s)) = error_dirs s"
  by (simp add: restore_metadata_def split: sum.splits option.splits)

lemma restore_metadata_miss:
  "metadata_cache s p = None \<Longrightarrow> restore_metadata p s = (False, s)"
  by (simp add: restore_metadata_def)

text \<open>
  Every branch of \<open>rename_directory\<close> ends in one append to one ledger. The proof goes
  through the branches of the method and uses nothing about the classifier.
\<close>

lemma rename_directory_one_entry:
  "one_entry_appended p s (snd (rename_directory p s))"
proof (cases "needs_standardization (name p)")
  case False
  then show ?thesis by (simp add: rename_directory_def one_entry_appended_def)
next
  case True
  note eligible = this
  let ?new = "parent p @ [standardize_apostrophes (name p)]"
  show ?thesis
  proof (cases "path_exists (fs s) ?new")
    case True
    with eligible show ?thesis
      by (simp add: rename_directory_def Let_def one_entry_appended_def)
  next
    case False
    note free = this
    obtain ok s1 where saved: "save_metadata p s = (ok, s1)"
      by (cases "save_metadata p s")
    from save_metadata_ledgers [of p s] saved
    have kept: "renamed_dirs s1 = renamed_dirs s" "skipped_dirs s1 = skipped_dirs s"
      "error_dirs s1 = error_dirs s"
      by simp_all
    show ?thesis
    proof (cases ok)
      case False
      with eligible free saved kept show ?thesis
        by (simp add: rename_directory_def Let_def one_entry_appended_def)
    next
      case True
      note captured = this
      show ?thesis
      proof (cases "dry_run s1")
        case True
        with eligible free saved kept captured show ?thesis
          by (simp add: rename_directory_def Let_def one_entry_appended_def)
      next
        case False
        note real = this
        show ?thesis
        proof (cases "os_rename (fs s1) p ?new")
          case (Inl e)
          with eligible free saved kept captured real show ?thesis
            by (simp add: rename_directory_def Let_def one_entry_appended_def)
        next
          case (Inr tree1)
          from restore_metadata_ledgers [of ?new "s1\<lparr>fs := tree1\<rparr>"] kept
          have "renamed_dirs (snd (restore_metadata ?new (s1\<lparr>fs := tree1\<rparr>))) = renamed_dirs s"
            "skipped_dirs (snd (restore_metadata ?new (s1\<lparr>fs := tree1\<rparr>))) = skipped_dirs s"
            "error_dirs (snd (restore_metadata ?new (s1\<lparr>fs := tree1\<rparr>))) = error_dirs s"
            by simp_all
          with eligible free saved captured real Inr show ?thesis
            by (simp add: rename_directory_def Let_def one_entry_appended_def)
        qed
      qed
    qed
  qed
qed

lemma one_entry_appended_total:
  "one_entry_appended p s s' \<Longrightarrow> total_processed s' = Suc (total_processed s)"
  by (auto simp: one_entry_appended_def total_processed_def)

subsection \<open>The two loops\<close>

lemma process_directories_processing_order:
  "process_directories isdecimal s = rename_each (processing_order isdecimal s) s"
  by (simp add: process_directories_def processing_order_def rename_each_def Let_def)

lemma rename_each_skips:
  "rename_each dirs s = s\<lparr>skipped_dirs := skipped_dirs s @ dirs\<rparr>"
  unfolding rename_each_def
  by (induction dirs arbitrary: s) (simp_all add: rename_directory_skips)

lemma rename_each_total:
  "total_processed (rename_each dirs s) = total_processed s + length dirs"
  unfolding rename_each_def
  by (induction dirs arbitrary: s)
     (simp_all add: one_entry_appended_total [OF rename_directory_one_entry])

text \<open>The first loop runs over a list that is sorted by depth, deepest first, and stably.\<close>

lemma sort_deepest_first_descending:
  "sorted (map (\<lambda>p. - int (length p)) (sort_deepest_first all_dirs))"
  by (simp add: sort_deepest_first_def)

lemma sort_deepest_first_stable:
  "filter (\<lambda>p. length p = n) (sort_deepest_first all_dirs) = filter (\<lambda>p. length p = n) all_dirs"
  using sort_key_stable [of "\<lambda>p. - int (length p)" "- int n" all_dirs]
  by (simp add: sort_deepest_first_def)

lemma order_nested:
  "processing_order ascii_digit (init [[98]] False tree_nested) =
     [[[98], [50,48,50,48], [50,48,50,49]],
      [[98], [50,48,50,48]],
      [[98], [50,48,50,48], [50,48,50,49]]]"
  by code_simp

lemma order_apos:
  "processing_order ascii_digit (init [[98]] dry tree_apos) = [old_apos, [[98], [50,48,50,51]]]"
  by code_simp

subsection \<open>Claims about one call\<close>

text \<open>
  The snapshot is stored under the path that \<open>save_metadata\<close> is called with and looked
  up under the path that \<open>restore_metadata\<close> is called with. Taken by themselves, on the
  tree \<open>b/2023/A's\<close> and for the name with U+2019: \<open>save_metadata\<close> stores the snapshot
  under the old path, the rename succeeds, and \<open>restore_metadata\<close> on the new path finds
  no snapshot, returns \<open>False\<close> and changes nothing. No call of \<open>rename_directory\<close>
  comes to these steps, as \<open>rename_directory_skips\<close> shows.
\<close>

lemma restore_metadata_after_rename_example:
  "save_metadata old_apos (init [[98]] False tree_apos)
     = (True, (init [[98]] False tree_apos)\<lparr>metadata_cache := [old_apos \<mapsto> attrs_0755]\<rparr>) \<and>
   os_rename tree_apos old_apos new_apos = Inr tree_renamed \<and>
   restore_metadata new_apos
       ((init [[98]] False tree_apos)
          \<lparr>metadata_cache := [old_apos \<mapsto> attrs_0755], fs := tree_renamed\<rparr>)
     = (False, (init [[98]] False tree_apos)
          \<lparr>metadata_cache := [old_apos \<mapsto> attrs_0755], fs := tree_renamed\<rparr>)"
proof -
  have "save_metadata old_apos (init [[98]] False tree_apos)
     = (True, (init [[98]] False tree_apos)\<lparr>metadata_cache := [old_apos \<mapsto> attrs_0755]\<rparr>)"
    by (simp add: save_metadata_def os_stat_def init_def tree_apos_def old_apos_def)
  moreover have "os_rename tree_apos old_apos new_apos = Inr tree_renamed"
    by code_simp
  moreover have "old_apos \<noteq> new_apos"
    by (simp add: old_apos_def new_apos_def)
  then have "restore_metadata new_apos
       ((init [[98]] False tree_apos)
          \<lparr>metadata_cache := [old_apos \<mapsto> attrs_0755], fs := tree_renamed\<rparr>)
     = (False, (init [[98]] False tree_apos)
          \<lparr>metadata_cache := [old_apos \<mapsto> attrs_0755], fs := tree_renamed\<rparr>)"
    by (intro restore_metadata_miss) simp
  ultimately show ?thesis by blast
qed

text \<open>
  Claim C6: for every eligible directory, if the destination path already exists, or the
  metadata snapshot cannot be captured, the entry is recorded as errored with the
  corresponding reason, no rename is attempted, and the source and the destination are
  left untouched.
  The source does not record the error: \<open>b/2023/A's\<close> has the straight mark and not
  U+2019, its destination with U+2019 exists in the tree, and the call records the
  directory as skipped; the error ledger and the tree stay as they were.
\<close>

theorem C6_collision_recorded_as_skipped:
  "STRAIGHT_APOSTROPHE \<in> set (name old_apos) \<and> U2019 \<notin> set (name old_apos) \<and>
   parent old_apos @ [str_replace STRAIGHT_APOSTROPHE U2019 (name old_apos)] = new_apos \<and>
   path_exists tree_collision new_apos \<and>
   rename_directory old_apos (init [[98]] False tree_collision)
     = (True, (init [[98]] False tree_collision)\<lparr>skipped_dirs := [old_apos]\<rparr>)"
  by (simp add: rename_directory_skips)
     (simp add: init_def name_def parent_def old_apos_def new_apos_def str_replace_def
        STRAIGHT_APOSTROPHE_def U2019_def path_exists_def tree_collision_def tree_apos_def)

text \<open>
  Claim C10: every call of \<open>rename_directory\<close> appends exactly one entry to exactly one
  of the three ledgers, so the total that validation and the summary report is the
  number of calls: the total grows by one with each call, and over a whole run by the
  length of the processing order.
\<close>

theorem C10_one_ledger_entry_per_call:
  "one_entry_appended p s (snd (rename_directory p s)) \<and>
   total_processed (snd (rename_directory p s)) = total_processed s + 1 \<and>
   total_processed (process_directories isdecimal s)
     = total_processed s + length (processing_order isdecimal s)"
  using rename_directory_one_entry [of p s]
  by (simp add: one_entry_appended_total process_directories_processing_order rename_each_total)

theorem C10_one_ledger_entry_per_call_witness:
  "one_entry_appended old_apos (init [[98]] False tree_apos)
      (snd (rename_directory old_apos (init [[98]] False tree_apos))) \<and>
   total_processed (snd (rename_directory old_apos (init [[98]] False tree_apos))) = 1 \<and>
   total_processed (process_directories ascii_digit (init [[98]] False tree_nested)) = 3"
  using C10_one_ledger_entry_per_call [of old_apos "init [[98]] False tree_apos" ascii_digit]
    C10_one_ledger_entry_per_call [of old_apos "init [[98]] False tree_nested" ascii_digit]
  by (simp add: order_nested) (simp add: total_processed_def init_def)

subsection \<open>Claims about a run\<close>

text \<open>
  Claim C5: the processing order sorts the discovered directories by depth, deepest
  first, so that a child directory is always processed before any of its ancestors, and
  the year-prefixed directories are processed last, after all of their descendants.
  The source does not keep this order when a year-prefixed directory lies inside
  another one. For \<open>b/2020/2021\<close> the order is \<open>b/2020/2021\<close>, \<open>b/2020\<close>, \<open>b/2020/2021\<close>:
  the second loop takes the year-prefixed directories as they were found, top down, and
  comes to \<open>b/2020/2021\<close> after its ancestor \<open>b/2020\<close>. The ledger of the run shows the
  same order.
\<close>

theorem C5_year_pass_top_down:
  "processing_order ascii_digit (init [[98]] False tree_nested) =
     [[[98], [50,48,50,48], [50,48,50,49]],
      [[98], [50,48,50,48]],
      [[98], [50,48,50,48], [50,48,50,49]]] \<and>
   skipped_dirs (process_directories ascii_digit (init [[98]] False tree_nested)) =
     processing_order ascii_digit (init [[98]] False tree_nested)"
  by (simp add: order_nested process_directories_processing_order rename_each_skips)
     (simp add: init_def)

text \<open>
  Claim C7: in simulate mode a run does not change the tree: with N eligible
  directories, all N original paths still exist unchanged afterwards, and the ledger
  records N entries as renamed and no error.
  The source leaves the tree unchanged but records no intended rename: in the tree
  \<open>b/2023/A's\<close> one name has the straight mark and not U+2019, and the simulated run
  ends with an empty ledger of renames and both directories in the ledger of skips.
\<close>

theorem C7_simulated_run_records_skips:
  "STRAIGHT_APOSTROPHE \<in> set (name old_apos) \<and> U2019 \<notin> set (name old_apos) \<and>
   run ascii_digit (init [[98]] True tree_apos)
     = (True, (init [[98]] True tree_apos)\<lparr>skipped_dirs := [old_apos, [[98], [50,48,50,51]]]\<rparr>) \<and>
   renamed_dirs (snd (run ascii_digit (init [[98]] True tree_apos))) = []"
  by (simp add: run_def process_directories_processing_order rename_each_skips order_apos
        validate_changes_def total_processed_def Let_def)
     (simp add: init_def name_def old_apos_def STRAIGHT_APOSTROPHE_def U2019_def)

text \<open>
  Claim C9: within a single run every directory is renamed at most once, also when the
  loops come to the same directory more than once: no path is the old path of more than
  one entry of the ledger of renames.
\<close>

theorem C9_renamed_at_most_once:
  "length (filter (\<lambda>(old_path, new_path). old_path = p)
             (renamed_dirs (process_directories isdecimal (init base dry tree)))) \<le> 1"
  by (simp add: process_directories_processing_order rename_each_skips) (simp add: init_def)

theorem C9_renamed_at_most_once_witness:
  "count_list (processing_order ascii_digit (init [[98]] False tree_nested))
       [[98], [50,48,50,48], [50,48,50,49]] = 2 \<and>
   length (filter (\<lambda>(old_path, new_path). old_path = [[98], [50,48,50,48], [50,48,50,49]])
             (renamed_dirs (process_directories ascii_digit (init [[98]] False tree_nested)))) \<le> 1"
  using C9_renamed_at_most_once
    [of "[[98], [50,48,50,48], [50,48,50,49]]" ascii_digit "[[98]]" False tree_nested]
  by (simp add: order_nested)

subsection \<open>Validation\<close>

text \<open>
  What \<open>validate_changes\<close> returns in any state: it fails exactly when some entry of the
  ledger of renames has a new path that is not on disk, or when the three ledgers are
  empty. It does not read \<open>dry_run\<close>.
\<close>

lemma validate_changes_fails_iff:
  "\<not> validate_changes s \<longleftrightarrow>
     list_ex (\<lambda>(old_path, new_path). \<not> path_exists (fs s) new_path) (renamed_dirs s) \<or>
     total_processed s = 0"
  by (simp add: validate_changes_def)

lemma order_bare:
  "processing_order ascii_digit (init [[98]] dry tree_bare) = []"
  by code_simp

text \<open>
  Claim C2: after the bulk run, validation confirms that each directory recorded as
  renamed exists at its new path on disk, a check that is skipped in simulate mode;
  validation fails if and only if some renamed entry's new path is missing
  (non-simulated) or zero entries were processed in total. Here \<open>run\<close> returns the
  verdict of the validation and the state that the bulk run has left.
\<close>

theorem C2_validation_after_run:
  "\<not> fst (run isdecimal (init base dry tree)) \<longleftrightarrow>
     (\<not> dry_run (snd (run isdecimal (init base dry tree))) \<and>
      (\<exists>(old_path, new_path) \<in> set (renamed_dirs (snd (run isdecimal (init base dry tree)))).
          \<not> path_exists (fs (snd (run isdecimal (init base dry tree)))) new_path)) \<or>
     total_processed (snd (run isdecimal (init base dry tree))) = 0"
proof -
  have post: "renamed_dirs (process_directories isdecimal (init base dry tree)) = []"
    by (simp add: process_directories_processing_order rename_each_skips) (simp add: init_def)
  show ?thesis
    by (simp add: run_def Let_def validate_changes_fails_iff post)
qed

theorem C2_validation_after_run_witness:
  "fst (run ascii_digit (init [[98]] True tree_apos)) \<and>
   total_processed (snd (run ascii_digit (init [[98]] True tree_apos))) = 2 \<and>
   \<not> fst (run ascii_digit (init [[98]] False tree_bare)) \<and>
   total_processed (snd (run ascii_digit (init [[98]] False tree_bare))) = 0"
  using C2_validation_after_run [of ascii_digit "[[98]]" True tree_apos]
    C2_validation_after_run [of ascii_digit "[[98]]" False tree_bare]
  by (simp add: run_def Let_def process_directories_processing_order rename_each_skips
        order_apos order_bare total_processed_def)
     (simp add: init_def)

end
